theory Spec2Isabelle
  imports Main
begin

section \<open>JavaScript strings and errors\<close>

text \<open>
  A JavaScript string is modelled as a \<^typ>\<open>string\<close>, one \<^typ>\<open>char\<close> for each code unit
  below 256. The helpers below follow the ECMAScript definitions of the String methods
  the services call.
\<close>

definition nl :: string where
  "nl = [CHR 0x0A]"

definition backslash :: char where
  "backslash = CHR 0x5C"

text \<open>\<^verbatim>\<open>s.startsWith(p)\<close>\<close>

definition startsWith :: "string \<Rightarrow> string \<Rightarrow> bool" where
  "startsWith s p = (take (length p) s = p)"

text \<open>\<^verbatim>\<open>s.includes(p)\<close>: \<^verbatim>\<open>p\<close> occurs in \<^verbatim>\<open>s\<close> at some position.\<close>

fun str_includes :: "string \<Rightarrow> string \<Rightarrow> bool" where
  "str_includes [] p = (p = [])"
| "str_includes (c # cs) p = (startsWith (c # cs) p \<or> str_includes cs p)"

text \<open>\<^verbatim>\<open>s.split("\n")\<close>: the pieces between the line feeds; never the empty array.\<close>

fun split_nl :: "string \<Rightarrow> string list" where
  "split_nl [] = [[]]"
| "split_nl (c # cs) =
     (if c = CHR 0x0A then [] # split_nl cs
      else (case split_nl cs of [] \<Rightarrow> [[c]] | l # ls \<Rightarrow> (c # l) # ls))"

text \<open>\<^verbatim>\<open>lines.join("\n")\<close>\<close>

fun join_nl :: "string list \<Rightarrow> string" where
  "join_nl [] = []"
| "join_nl [l] = l"
| "join_nl (l # ls) = l @ nl @ join_nl ls"

text \<open>
  \<^verbatim>\<open>s.trim()\<close> removes white space and line terminators from both ends. Of the
  code units ECMAScript counts as such, these are the ones below 256: TAB, LF, VT, FF, CR,
  SPACE and NO-BREAK SPACE.
\<close>

definition is_space :: "char \<Rightarrow> bool" where
  "is_space c = (c \<in> set [CHR 0x09, CHR 0x0A, CHR 0x0B, CHR 0x0C, CHR 0x0D, CHR 0x20, CHR 0xA0])"

definition trim :: "string \<Rightarrow> string" where
  "trim s = rev (dropWhile is_space (rev (dropWhile is_space s)))"

text \<open>
  \<^verbatim>\<open>s.toLowerCase()\<close> on code units below 256: A to Z, and the Latin-1 capitals
  0xC0 to 0xDE except the multiplication sign 0xD7, move up by 0x20.
\<close>

definition lower_char :: "char \<Rightarrow> char" where
  "lower_char c =
     (let n = of_char c :: nat in
      if (0x41 \<le> n \<and> n \<le> 0x5A) \<or> (0xC0 \<le> n \<and> n \<le> 0xDE \<and> n \<noteq> 0xD7)
      then char_of (n + 0x20) else c)"

definition toLowerCase :: "string \<Rightarrow> string" where
  "toLowerCase s = map lower_char s"

text \<open>\<^verbatim>\<open>s.replace(/\\/g, "/")\<close>: every backslash becomes a forward slash.\<close>

definition replace_backslashes :: "string \<Rightarrow> string" where
  "replace_backslashes s = map (\<lambda>c. if c = backslash then CHR ''/'' else c) s"

text \<open>\<^verbatim>\<open>s.replace(pat, rep)\<close> with a string pattern: only the first occurrence is replaced.\<close>

fun replace_first :: "string \<Rightarrow> string \<Rightarrow> string \<Rightarrow> string" where
  "replace_first pat rep [] = (if pat = [] then rep else [])"
| "replace_first pat rep (c # cs) =
     (if startsWith (c # cs) pat then rep @ drop (length pat) (c # cs)
      else c # replace_first pat rep cs)"

text \<open>Decimal rendering of a number inside a template literal.\<close>

fun show_nat :: "nat \<Rightarrow> string" where
  "show_nat n =
     (if n < 10 then [char_of (0x30 + n)]
      else show_nat (n div 10) @ [char_of (0x30 + n mod 10)])"

definition show_int :: "int \<Rightarrow> string" where
  "show_int i = (if i < 0 then ''-'' @ show_nat (nat (- i)) else show_nat (nat i))"

text \<open>
  An \<^verbatim>\<open>Error\<close> object: its \<^verbatim>\<open>message\<close>, and the \<^verbatim>\<open>code\<close> property that
  the errors of the \<^verbatim>\<open>fs\<close> module carry (\<^verbatim>\<open>ENOENT\<close>, \<^verbatim>\<open>EACCES\<close>); an error made by
  \<^verbatim>\<open>new Error(msg)\<close> has no code.
\<close>

datatype js_error = Error (code: "string option") (message: string)

definition new_Error :: "string \<Rightarrow> js_error" where
  "new_Error msg = Error None msg"

section \<open>The process runner\<close>

text \<open>
  \<^verbatim>\<open>runInDesignWithScript\<close> creates a promise, spawns the child process and installs
  two timers and four listeners. The closure variables and the parts of the child process
  object they read are the fields of the record.
\<close>

datatype promise = Pending | Resolved string | Rejected js_error

record runner =
  stdout :: string
  stderr :: string
  isResolved :: bool
  promise :: promise
  timeout_at :: "nat option"
  grace_at :: "nat option"
  killed :: bool
  signals :: "string list"
  running :: bool

text \<open>
  The close listener strips the lines of the duplicate-class warnings from stderr.
\<close>

definition noise_line :: "string \<Rightarrow> bool" where
  "noise_line line =
     (str_includes line ''Class AdobeSimpleURLSession'' \<or>
      str_includes line ''objc['' \<or>
      str_includes line ''is implemented in both'' \<or>
      str_includes line ''One of the duplicates must be removed'')"

definition filteredStderr :: "string \<Rightarrow> string" where
  "filteredStderr err = trim (join_nl (filter (\<lambda>line. \<not> noise_line line) (split_nl err)))"

text \<open>
  \<^verbatim>\<open>resolve\<close> and \<^verbatim>\<open>reject\<close> settle a pending promise and do nothing to a settled one.
\<close>

definition settle :: "promise \<Rightarrow> runner \<Rightarrow> runner" where
  "settle p s = (if promise s = Pending then s\<lparr>promise := p\<rparr> else s)"

text \<open>
  \<^verbatim>\<open>childProcess.kill(sig)\<close>, as Node's \<^verbatim>\<open>child_process\<close> module documents it: while the
  child exists the signal is sent and \<^verbatim>\<open>childProcess.killed\<close> becomes true; once the child
  is gone nothing is sent and \<^verbatim>\<open>killed\<close> keeps its value. \<^verbatim>\<open>killed\<close> says that a
  signal was sent, not that the child has ended.
\<close>

definition kill :: "string \<Rightarrow> runner \<Rightarrow> runner" where
  "kill sig s = (if running s then s\<lparr>killed := True, signals := signals s @ [sig]\<rparr> else s)"

definition timeout_ms :: nat where
  "timeout_ms = 5 * 60 * 1000"

definition grace_ms :: nat where
  "grace_ms = 5000"

definition timeout_message :: string where
  "timeout_message = ''InDesign process timed out after 5 minutes. This may indicate missing fonts, missing links, or InDesign waiting for user input.''"

text \<open>The callback of the outer \<^verbatim>\<open>setTimeout\<close>, run at time \<open>d\<close>.\<close>

definition on_timeout :: "nat \<Rightarrow> runner \<Rightarrow> runner" where
  "on_timeout d s =
     (if \<not> isResolved s
      then settle (Rejected (new_Error timeout_message))
             ((kill ''SIGTERM'' s)\<lparr>grace_at := Some (d + grace_ms)\<rparr>)
      else s)"

text \<open>The callback of the inner \<^verbatim>\<open>setTimeout\<close>.\<close>

definition on_grace :: "runner \<Rightarrow> runner" where
  "on_grace s = (if \<not> killed s then kill ''SIGKILL'' s else s)"

text \<open>The listeners. \<open>indesignPath\<close> is the command that was spawned.\<close>

definition on_stdout :: "string \<Rightarrow> runner \<Rightarrow> runner" where
  "on_stdout output s = s\<lparr>stdout := stdout s @ output\<rparr>"

definition on_stderr :: "string \<Rightarrow> runner \<Rightarrow> runner" where
  "on_stderr output s = s\<lparr>stderr := stderr s @ output\<rparr>"

definition on_error :: "string \<Rightarrow> string \<Rightarrow> runner \<Rightarrow> runner" where
  "on_error indesignPath msg s =
     settle (Rejected (new_Error (''Failed to launch InDesign: '' @ msg @
               ''. Please ensure InDesign is installed at: '' @ indesignPath)))
       (s\<lparr>isResolved := True, timeout_at := None\<rparr>)"

definition exit_code_text :: "int option \<Rightarrow> string" where
  "exit_code_text c = (case c of None \<Rightarrow> ''null'' | Some n \<Rightarrow> show_int n)"

definition failure_detail :: "int option \<Rightarrow> string \<Rightarrow> string \<Rightarrow> string" where
  "failure_detail c filtered out =
     (if filtered \<noteq> [] then filtered
      else if out \<noteq> [] then out
      else ''Exit code '' @ exit_code_text c)"

definition on_close :: "int option \<Rightarrow> runner \<Rightarrow> runner" where
  "on_close c s =
     (let s1 = s\<lparr>isResolved := True, timeout_at := None\<rparr>;
          filtered = filteredStderr (stderr s1)
      in if c \<noteq> Some 0 \<or> str_includes filtered ''ERROR:''
         then settle (Rejected (new_Error (''InDesign script execution failed: '' @
                        failure_detail c filtered (stdout s1)))) s1
         else settle (Resolved (stdout s1)) s1)"

text \<open>
  What the child process does is a list of events, each with the time (in milliseconds)
  at which it reaches the event loop. \<open>ExitEvent\<close> is the child ending; the close event
  comes once the child has ended and its streams are closed.
\<close>

datatype event =
    StdoutData string
  | StderrData string
  | ErrorEvent string
  | CloseEvent "int option"
  | ExitEvent

definition handle :: "string \<Rightarrow> event \<Rightarrow> runner \<Rightarrow> runner" where
  "handle indesignPath ev s =
     (case ev of
        StdoutData d \<Rightarrow> on_stdout d s
      | StderrData d \<Rightarrow> on_stderr d s
      | ErrorEvent m \<Rightarrow> on_error indesignPath m s
      | CloseEvent c \<Rightarrow> on_close c (s\<lparr>running := False\<rparr>)
      | ExitEvent \<Rightarrow> s\<lparr>running := False\<rparr>)"

text \<open>Timers that are due at time \<open>t\<close> run before anything that happens at \<open>t\<close> or later.\<close>

definition fire_due :: "nat \<Rightarrow> runner \<Rightarrow> runner" where
  "fire_due t s =
     (let s1 = (case timeout_at s of
                  Some d \<Rightarrow> if d \<le> t then on_timeout d (s\<lparr>timeout_at := None\<rparr>) else s
                | None \<Rightarrow> s)
      in case grace_at s1 of
           Some g \<Rightarrow> if g \<le> t then on_grace (s1\<lparr>grace_at := None\<rparr>) else s1
         | None \<Rightarrow> s1)"

definition deliver :: "string \<Rightarrow> nat \<times> event \<Rightarrow> runner \<Rightarrow> runner" where
  "deliver indesignPath te s = handle indesignPath (snd te) (fire_due (fst te) s)"

fun run_events :: "string \<Rightarrow> (nat \<times> event) list \<Rightarrow> runner \<Rightarrow> runner" where
  "run_events indesignPath [] s = s"
| "run_events indesignPath (te # tes) s = run_events indesignPath tes (deliver indesignPath te s)"

text \<open>The closure right after \<^verbatim>\<open>spawn\<close> and the outer \<^verbatim>\<open>setTimeout\<close>, at time \<open>t0\<close>.\<close>

definition spawn_state :: "nat \<Rightarrow> runner" where
  "spawn_state t0 =
     \<lparr>stdout = [], stderr = [], isResolved = False, promise = Pending,
      timeout_at = Some (t0 + timeout_ms), grace_at = None,
      killed = False, signals = [], running = True\<rparr>"

text \<open>The runner once the whole trace has been delivered and the clock shows \<open>t\<close>.\<close>

definition runner_at :: "string \<Rightarrow> nat \<Rightarrow> (nat \<times> event) list \<Rightarrow> nat \<Rightarrow> runner" where
  "runner_at indesignPath t0 tes t = fire_due t (run_events indesignPath tes (spawn_state t0))"

section \<open>The path module\<close>

text \<open>
  \<^verbatim>\<open>path.extname\<close> scans the path from its end. The loop below is Node's, with its five
  variables (\<open>-1\<close> means "not seen yet"); \<open>extname_loop is_sep path start k st\<close> runs the
  iterations \<open>i = k - 1, \<dots>, start\<close>, and stops at the first separator after the last
  path component.
\<close>

record ext_state =
  startDot :: int
  startPart :: int
  end_pos :: int
  matchedSlash :: bool
  preDotState :: int

definition ext_init :: "int \<Rightarrow> ext_state" where
  "ext_init start =
     \<lparr>startDot = - 1, startPart = start, end_pos = - 1, matchedSlash = True, preDotState = 0\<rparr>"

definition ext_step :: "char \<Rightarrow> nat \<Rightarrow> ext_state \<Rightarrow> ext_state" where
  "ext_step c i st =
     (let st1 = (if end_pos st = - 1 then st\<lparr>matchedSlash := False, end_pos := int i + 1\<rparr> else st)
      in if c = CHR ''.''
         then (if startDot st1 = - 1 then st1\<lparr>startDot := int i\<rparr>
               else if preDotState st1 \<noteq> 1 then st1\<lparr>preDotState := 1\<rparr>
               else st1)
         else if startDot st1 \<noteq> - 1 then st1\<lparr>preDotState := - 1\<rparr>
         else st1)"

fun extname_loop :: "(char \<Rightarrow> bool) \<Rightarrow> string \<Rightarrow> nat \<Rightarrow> nat \<Rightarrow> ext_state \<Rightarrow> ext_state" where
  "extname_loop is_sep path start 0 st = st"
| "extname_loop is_sep path start (Suc i) st =
     (if i < start then st
      else if is_sep (path ! i)
      then (if \<not> matchedSlash st then st\<lparr>startPart := int i + 1\<rparr>
            else extname_loop is_sep path start i st)
      else extname_loop is_sep path start i (ext_step (path ! i) i st))"

definition extname_result :: "string \<Rightarrow> ext_state \<Rightarrow> string" where
  "extname_result path st =
     (if startDot st = - 1 \<or> end_pos st = - 1 \<or> preDotState st = 0 \<or>
         (preDotState st = 1 \<and> startDot st = end_pos st - 1 \<and> startDot st = startPart st + 1)
      then []
      else drop (nat (startDot st)) (take (nat (end_pos st)) path))"

definition posix_extname :: "string \<Rightarrow> string" where
  "posix_extname path =
     extname_result path (extname_loop (\<lambda>c. c = CHR ''/'') path 0 (length path) (ext_init 0))"

definition isWindowsDeviceRoot :: "char \<Rightarrow> bool" where
  "isWindowsDeviceRoot c =
     (let n = of_char c :: nat in (0x41 \<le> n \<and> n \<le> 0x5A) \<or> (0x61 \<le> n \<and> n \<le> 0x7A))"

definition isPathSeparator :: "char \<Rightarrow> bool" where
  "isPathSeparator c = (c = CHR ''/'' \<or> c = backslash)"

definition win32_extname :: "string \<Rightarrow> string" where
  "win32_extname path =
     (let start = (if 2 \<le> length path \<and> path ! 1 = CHR '':'' \<and> isWindowsDeviceRoot (path ! 0)
                   then 2 else 0)
      in extname_result path
           (extname_loop isPathSeparator path start (length path) (ext_init (int start))))"

text \<open>Node binds \<^verbatim>\<open>path\<close> to the Windows flavour on \<^verbatim>\<open>win32\<close> and to the POSIX one elsewhere.\<close>

definition path_extname :: "string \<Rightarrow> string \<Rightarrow> string" where
  "path_extname plat p = (if plat = ''win32'' then win32_extname p else posix_extname p)"

section \<open>The environment of the service\<close>

text \<open>
  What the services read from their surroundings: \<^verbatim>\<open>os.platform()\<close>, \<^verbatim>\<open>os.tmpdir()\<close>,
  \<^verbatim>\<open>Date.now()\<close> (also taken as the time of the spawn),
  \<^verbatim>\<open>process.env.INDESIGN_APP_PATH\<close>, and the two functions of the path module that are
  left open here, \<^verbatim>\<open>path.join\<close> and \<^verbatim>\<open>path.basename\<close>.
\<close>

record env =
  platform :: string
  tmpdir :: string
  now :: nat
  INDESIGN_APP_PATH :: "string option"
  path_join :: "string \<Rightarrow> string \<Rightarrow> string"
  path_basename :: "string \<Rightarrow> string \<Rightarrow> string"

text \<open>\<^verbatim>\<open>config.indesignAppPath\<close> is \<^verbatim>\<open>process.env.INDESIGN_APP_PATH || null\<close>.\<close>

definition indesignAppPath :: "env \<Rightarrow> string option" where
  "indesignAppPath e =
     (case INDESIGN_APP_PATH e of None \<Rightarrow> None | Some s \<Rightarrow> if s = [] then None else Some s)"

section \<open>The file system\<close>

text \<open>
  The file system is the regular files with their contents and the directories, by path.
  \<open>denied\<close> holds the paths at which the operating system refuses to create, write or
  remove; an operation that fails leaves the file system as it was. \<open>console\<close> collects
  the lines written with \<^verbatim>\<open>console.error\<close>.
\<close>

record world =
  files :: "string \<rightharpoonup> string"
  dirs :: "string set"
  denied :: "string set"
  console :: "string list"

definition quote :: string where
  "quote = [CHR 0x27]"

definition fs_error :: "string \<Rightarrow> string \<Rightarrow> string \<Rightarrow> string \<Rightarrow> js_error" where
  "fs_error c desc syscall p =
     Error (Some c) (c @ '': '' @ desc @ '', '' @ syscall @ '' '' @ quote @ p @ quote)"

definition ENOENT :: "string \<Rightarrow> string \<Rightarrow> js_error" where
  "ENOENT syscall p = fs_error ''ENOENT'' ''no such file or directory'' syscall p"

definition EACCES :: "string \<Rightarrow> string \<Rightarrow> js_error" where
  "EACCES syscall p = fs_error ''EACCES'' ''permission denied'' syscall p"

definition EISDIR :: "string \<Rightarrow> string \<Rightarrow> js_error" where
  "EISDIR syscall p = fs_error ''EISDIR'' ''illegal operation on a directory'' syscall p"

definition EEXIST :: "string \<Rightarrow> string \<Rightarrow> js_error" where
  "EEXIST syscall p = fs_error ''EEXIST'' ''file already exists'' syscall p"

text \<open>\<^verbatim>\<open>fs.access(p)\<close> succeeds when something exists at \<open>p\<close>.\<close>

definition access :: "string \<Rightarrow> world \<Rightarrow> js_error + unit" where
  "access p w = (if files w p \<noteq> None \<or> p \<in> dirs w then Inr () else Inl (ENOENT ''access'' p))"

definition writeFile :: "string \<Rightarrow> string \<Rightarrow> world \<Rightarrow> js_error + world" where
  "writeFile p content w =
     (if p \<in> denied w then Inl (EACCES ''open'' p)
      else if p \<in> dirs w then Inl (EISDIR ''open'' p)
      else Inr (w\<lparr>files := (files w)(p \<mapsto> content)\<rparr>))"

definition unlink :: "string \<Rightarrow> world \<Rightarrow> js_error + world" where
  "unlink p w =
     (if files w p \<noteq> None
      then (if p \<in> denied w then Inl (EACCES ''unlink'' p)
            else Inr (w\<lparr>files := (files w)(p := None)\<rparr>))
      else if p \<in> dirs w then Inl (EISDIR ''unlink'' p)
      else Inl (ENOENT ''unlink'' p))"

text \<open>\<^verbatim>\<open>fs.mkdir(p, { recursive: true })\<close>: an existing directory is not an error.\<close>

definition mkdir_recursive :: "string \<Rightarrow> world \<Rightarrow> js_error + world" where
  "mkdir_recursive p w =
     (if p \<in> dirs w then Inr w
      else if files w p \<noteq> None then Inl (EEXIST ''mkdir'' p)
      else if p \<in> denied w then Inl (EACCES ''mkdir'' p)
      else Inr (w\<lparr>dirs := insert p (dirs w)\<rparr>))"





text \<open>\<^verbatim>\<open>checkFileExists\<close>: every error of \<^verbatim>\<open>fs.access\<close> is caught and answered with false.\<close>

definition checkFileExists :: "string \<Rightarrow> world \<Rightarrow> bool" where
  "checkFileExists filePath w = (case access filePath w of Inr u \<Rightarrow> True | Inl err \<Rightarrow> False)"

section \<open>The conversion service\<close>

text \<open>
  The text of the ExtendScript, in the three pieces of the template literal around its two
  substitutions.
\<close>

definition script_head :: string where
  \<open>script_head = concat
    [[] @ nl,
     ''#target indesign'' @ nl,
     [] @ nl,
     ''try {'' @ nl,
     ''  $.writeln("Starting InDesign conversion script...");'' @ nl,
     [] @ nl,
     ''  // Suppress all dialogs and user interaction'' @ nl,
     ''  app.scriptPreferences.userInteractionLevel = UserInteractionLevels.NEVER_INTERACT;'' @ nl,
     [] @ nl,
     ''  $.writeln("Opening InDesign document...");'' @ nl,
     [] @ nl,
     ''  // Open the InDesign document'' @ nl,
     ''  var sourceFile = File("'']\<close>

definition script_middle :: string where
  \<open>script_middle = concat
    [''");'' @ nl,
     ''  if (!sourceFile.exists) {'' @ nl,
     ''    throw new Error("Source file not found: " + sourceFile.fsName);'' @ nl,
     ''  }'' @ nl,
     [] @ nl,
     ''  var doc = app.open(sourceFile, false); // false = don't show dialogs'' @ nl,
     [] @ nl,
     ''  $.writeln("Document opened successfully. Pages: " + doc.pages.length);'' @ nl,
     [] @ nl,
     ''  // Check for missing fonts (don't fail, just warn)'' @ nl,
     ''  if (doc.fonts.length > 0) {'' @ nl,
     ''    $.writeln("Document has " + doc.fonts.length + " fonts");'' @ nl,
     ''  }'' @ nl,
     [] @ nl,
     ''  // Export to PDF'' @ nl,
     ''  var pdfFile = File("'']\<close>

definition script_tail :: string where
  \<open>script_tail = concat
    [''");'' @ nl,
     [] @ nl,
     ''  $.writeln("Configuring PDF export preferences...");'' @ nl,
     [] @ nl,
     ''  // Set PDF export preset (using default High Quality Print preset)'' @ nl,
     ''  app.pdfExportPreferences.pageRange = PageRange.ALL_PAGES;'' @ nl,
     [] @ nl,
     ''  $.writeln("Starting PDF export...");'' @ nl,
     [] @ nl,
     ''  // Export the document'' @ nl,
     ''  doc.exportFile(ExportFormat.PDF_TYPE, pdfFile, false);'' @ nl,
     [] @ nl,
     ''  $.writeln("PDF export completed successfully");'' @ nl,
     [] @ nl,
     ''  // Close the document without saving'' @ nl,
     ''  doc.close(SaveOptions.NO);'' @ nl,
     [] @ nl,
     ''  $.writeln("Document closed. Conversion complete.");'' @ nl,
     [] @ nl,
     ''  // Quit InDesign to ensure process terminates'' @ nl,
     ''  app.quit();'' @ nl,
     [] @ nl,
     ''  // Return success message'' @ nl,
     ''  "SUCCESS";'' @ nl,
     [] @ nl,
     ''} catch (err) {'' @ nl,
     ''  $.writeln("ERROR occurred: " + err.message);'' @ nl,
     [] @ nl,
     ''  // Close document if it's open'' @ nl,
     ''  if (typeof doc !== 'undefined') {'' @ nl,
     ''    try {'' @ nl,
     ''      $.writeln("Attempting to close document...");'' @ nl,
     ''      doc.close(SaveOptions.NO);'' @ nl,
     ''    } catch (e) {'' @ nl,
     ''      $.writeln("Could not close document: " + e.message);'' @ nl,
     ''    }'' @ nl,
     ''  }'' @ nl,
     [] @ nl,
     ''  // Try to quit InDesign'' @ nl,
     ''  try {'' @ nl,
     ''    app.quit();'' @ nl,
     ''  } catch (e) {}'' @ nl,
     [] @ nl,
     ''  // Write error to stderr'' @ nl,
     ''  $.writeln("ERROR: " + err.message);'' @ nl,
     ''  throw err;'' @ nl,
     ''}'' @ nl,
     []]\<close>

definition script_text :: "string \<Rightarrow> string \<Rightarrow> string" where
  "script_text indesignFilePath pdfOutputPath =
     script_head @ replace_backslashes indesignFilePath @
     script_middle @ replace_backslashes pdfOutputPath @
     script_tail"

definition scriptPath_of :: "env \<Rightarrow> string" where
  "scriptPath_of e = path_join e (tmpdir e) (''indesign_export_'' @ show_nat (now e) @ ''.jsx'')"

definition default_darwin :: string where
  "default_darwin = ''/Applications/Adobe InDesign 2024/Adobe InDesign 2024.app/Contents/MacOS/Adobe InDesign 2024''"

definition default_win32 :: string where
  "default_win32 = ''C:'' @ [backslash] @ ''Program Files'' @ [backslash] @ ''Adobe'' @ [backslash] @
     ''Adobe InDesign 2024'' @ [backslash] @ ''InDesign.exe''"

definition unsupported :: js_error where
  "unsupported = new_Error ''Unsupported platform for Adobe InDesign automation''"

definition tab :: string where
  "tab = [CHR 0x09]"

definition appleScriptContent :: "string \<Rightarrow> string" where
  \<open>appleScriptContent scriptPath = concat
    [''tell application "Adobe InDesign 2026"'' @ nl,
     tab @ ''activate'' @ nl,
     tab @ ''set scriptFile to POSIX file "'' @ scriptPath @ ''"'' @ nl,
     tab @ ''do script scriptFile language javascript'' @ nl,
     ''end tell'']\<close>

text \<open>
  The child process is a function of the command, its arguments and the file system at
  the spawn: it yields the events the listeners will see and the file system it leaves.
\<close>

type_synonym child = "string \<Rightarrow> string list \<Rightarrow> world \<Rightarrow> (nat \<times> event) list \<times> world"

text \<open>
  What \<^verbatim>\<open>runInDesignWithScript\<close> leaves: the file system, the command and arguments given
  to \<^verbatim>\<open>spawn\<close> (if it got that far) and the promise as the awaiting caller finds it.
  A promise that is still \<open>Pending\<close> here is never settled.
\<close>

record run_result =
  world_after :: world
  spawned :: "(string \<times> string list) option"
  outcome :: promise

text \<open>
  From \<^verbatim>\<open>spawn\<close> on. The outer timer is due \<open>timeout_ms\<close> after the spawn, so at that time
  the promise is as the caller finds it.
\<close>

definition spawn_and_wait :: "env \<Rightarrow> child \<Rightarrow> string \<Rightarrow> string list \<Rightarrow> world \<Rightarrow> run_result" where
  "spawn_and_wait e child indesignPath args w =
     (case child indesignPath args w of
        (tes, w') \<Rightarrow>
          \<lparr>world_after = w', spawned = Some (indesignPath, args),
           outcome = promise (runner_at indesignPath (now e) tes (now e + timeout_ms))\<rparr>)"

text \<open>
  The default path is looked up when \<^verbatim>\<open>config.indesignAppPath\<close> is not set; an
  unsupported platform rejects there.
\<close>

definition resolve_indesignPath :: "env \<Rightarrow> js_error + string" where
  "resolve_indesignPath e =
     (case indesignAppPath e of
        Some p \<Rightarrow> Inr p
      | None \<Rightarrow>
          if platform e = ''darwin'' then Inr default_darwin
          else if platform e = ''win32'' then Inr default_win32
          else Inl unsupported)"

text \<open>
  The executor of the promise is an \<^verbatim>\<open>async\<close> function: when the \<^verbatim>\<open>await\<close> of
  \<^verbatim>\<open>fs.writeFile\<close> throws, neither \<^verbatim>\<open>resolve\<close> nor \<^verbatim>\<open>reject\<close> is called and no
  timer is set, so the promise stays pending.
\<close>

definition runInDesignWithScript :: "env \<Rightarrow> child \<Rightarrow> string \<Rightarrow> world \<Rightarrow> run_result" where
  "runInDesignWithScript e child scriptPath w =
     (case resolve_indesignPath e of
        Inl err \<Rightarrow> \<lparr>world_after = w, spawned = None, outcome = Rejected err\<rparr>
      | Inr indesignPath \<Rightarrow>
          if platform e = ''darwin''
          then (let appleScriptPath = replace_first ''.jsx'' ''.scpt'' scriptPath
                in case writeFile appleScriptPath (appleScriptContent scriptPath) w of
                     Inl err \<Rightarrow> \<lparr>world_after = w, spawned = None, outcome = Pending\<rparr>
                   | Inr w1 \<Rightarrow> spawn_and_wait e child ''osascript'' [appleScriptPath] w1)
          else if platform e = ''win32''
          then spawn_and_wait e child indesignPath [''-ScriptPath'', scriptPath] w
          else \<lparr>world_after = w, spawned = None, outcome = Rejected unsupported\<rparr>)"

text \<open>\<^verbatim>\<open>fs.unlink(scriptPath).catch(() => {})\<close>\<close>

definition unlink_quiet :: "string \<Rightarrow> world \<Rightarrow> world" where
  "unlink_quiet p w = (case unlink p w of Inr w' \<Rightarrow> w' | Inl err \<Rightarrow> w)"

text \<open>
  \<^verbatim>\<open>executeInDesignScript\<close> and \<^verbatim>\<open>convertInDesignToPDF\<close> return the file system and,
  when they return at all, an error or a value; \<open>None\<close> is the call that never returns.
\<close>

definition executeInDesignScript ::
  "env \<Rightarrow> child \<Rightarrow> string \<Rightarrow> string \<Rightarrow> world \<Rightarrow> world \<times> (js_error + unit) option" where
  "executeInDesignScript e child indesignFilePath pdfOutputPath w =
     (let scriptPath = scriptPath_of e;
          script = script_text indesignFilePath pdfOutputPath
      in case writeFile scriptPath script w of
           Inl err \<Rightarrow> (unlink_quiet scriptPath w, Some (Inl err))
         | Inr w1 \<Rightarrow>
             (let r = runInDesignWithScript e child scriptPath w1
              in case outcome r of
                   Pending \<Rightarrow> (world_after r, None)
                 | Rejected err \<Rightarrow> (unlink_quiet scriptPath (world_after r), Some (Inl err))
                 | Resolved out \<Rightarrow> (unlink_quiet scriptPath (world_after r), Some (Inr ()))))"

text \<open>The \<^verbatim>\<open>try\<close> block of \<^verbatim>\<open>convertInDesignToPDF\<close>.\<close>

definition convert_body ::
  "env \<Rightarrow> child \<Rightarrow> string \<Rightarrow> string \<Rightarrow> world \<Rightarrow> world \<times> (js_error + string) option" where
  "convert_body e child indesignFilePath outputDir w =
     (if \<not> checkFileExists indesignFilePath w
      then (w, Some (Inl (new_Error (''InDesign file not found: '' @ indesignFilePath))))
      else
        (let filename = path_basename e indesignFilePath (path_extname (platform e) indesignFilePath);
             pdfPath = path_join e outputDir (filename @ ''.pdf'')
         in case mkdir_recursive outputDir w of
              Inl err \<Rightarrow> (w, Some (Inl err))
            | Inr w1 \<Rightarrow>
                (case executeInDesignScript e child indesignFilePath pdfPath w1 of
                   (w2, None) \<Rightarrow> (w2, None)
                 | (w2, Some (Inl err)) \<Rightarrow> (w2, Some (Inl err))
                 | (w2, Some (Inr u)) \<Rightarrow>
                     if \<not> checkFileExists pdfPath w2
                     then (w2, Some (Inl (new_Error ''PDF was not generated successfully'')))
                     else (w2, Some (Inr pdfPath)))))"

text \<open>The \<^verbatim>\<open>catch\<close> block wraps every error of the \<^verbatim>\<open>try\<close> block.\<close>

definition convertInDesignToPDF ::
  "env \<Rightarrow> child \<Rightarrow> string \<Rightarrow> string \<Rightarrow> world \<Rightarrow> world \<times> (js_error + string) option" where
  "convertInDesignToPDF e child indesignFilePath outputDir w =
     (case convert_body e child indesignFilePath outputDir w of
        (w', Some (Inl error)) \<Rightarrow>
          (w', Some (Inl (new_Error (''Failed to convert InDesign to PDF: '' @ message error))))
      | (w', r) \<Rightarrow> (w', r))"

section \<open>Cleaning up\<close>



section \<open>The zip handler\<close>

text \<open>
  The extracted tree as \<^verbatim>\<open>fs.readdir(dirPath, { withFileTypes: true })\<close> shows it: the
  entries of a directory in the order of the listing, each a regular file, a directory
  or something else (a link, a socket); or the error of a directory that cannot be read.
\<close>

datatype entry =
    FileEntry string
  | DirEntry string listing
  | OtherEntry string
and listing =
    Entries "entry list"
  | Unreadable js_error

text \<open>A value is truthy unless it is \<^verbatim>\<open>null\<close> or the empty string.\<close>

definition truthy :: "string option \<Rightarrow> bool" where
  "truthy v = (case v of None \<Rightarrow> False | Some s \<Rightarrow> s \<noteq> [])"

text \<open>
  \<open>findInDesignFile\<close> is the function with its \<^verbatim>\<open>try\<close> and \<^verbatim>\<open>catch\<close>;
  \<open>scan_entries\<close> is the \<^verbatim>\<open>for\<close> loop over the entries that are left.
\<close>

fun findInDesignFile :: "env \<Rightarrow> string \<Rightarrow> listing \<Rightarrow> js_error + string option"
  and scan_entries :: "env \<Rightarrow> string \<Rightarrow> entry list \<Rightarrow> js_error + string option" where
  "findInDesignFile e dirPath (Unreadable error) =
     Inl (new_Error (''Error searching for InDesign file: '' @ message error))"
| "findInDesignFile e dirPath (Entries entries) =
     (case scan_entries e dirPath entries of
        Inl error \<Rightarrow> Inl (new_Error (''Error searching for InDesign file: '' @ message error))
      | Inr found \<Rightarrow> Inr found)"
| "scan_entries e dirPath [] = Inr None"
| "scan_entries e dirPath (DirEntry name sub # entries) =
     (if startsWith name ''.'' \<or> name = ''__MACOSX'' then scan_entries e dirPath entries
      else (case findInDesignFile e (path_join e dirPath name) sub of
              Inl error \<Rightarrow> Inl error
            | Inr found \<Rightarrow> if truthy found then Inr found else scan_entries e dirPath entries))"
| "scan_entries e dirPath (FileEntry name # entries) =
     (let ext = toLowerCase (path_extname (platform e) name)
      in if ext = ''.indd'' \<or> ext = ''.idml'' then Inr (Some (path_join e dirPath name))
         else scan_entries e dirPath entries)"
| "scan_entries e dirPath (OtherEntry name # entries) = scan_entries e dirPath entries"

text \<open>
  The \<^verbatim>\<open>try\<close> block of \<^verbatim>\<open>extractZipAndFindInDesignFile\<close>. \<open>unzip\<close> stands for the zip
  library: opening the archive and extracting it throws, or leaves a tree at
  \<open>extractPath\<close>.
\<close>

type_synonym unzip = "string \<Rightarrow> string \<Rightarrow> js_error + listing"

definition not_found :: js_error where
  "not_found = new_Error ''No InDesign file (.indd or .idml) found in the zip''"

definition extract_body ::
  "env \<Rightarrow> unzip \<Rightarrow> string \<Rightarrow> string \<Rightarrow> js_error + string \<times> string" where
  "extract_body e unzip zipPath extractPath =
     (case unzip zipPath extractPath of
        Inl error \<Rightarrow> Inl error
      | Inr tree \<Rightarrow>
          (case findInDesignFile e extractPath tree of
             Inl error \<Rightarrow> Inl error
           | Inr None \<Rightarrow> Inl not_found
           | Inr (Some indesignFile) \<Rightarrow>
               if indesignFile = [] then Inl not_found
               else Inr (indesignFile, extractPath)))"

text \<open>The \<^verbatim>\<open>catch\<close> block lets the not-found error through and wraps every other one.\<close>

definition extractZipAndFindInDesignFile ::
  "env \<Rightarrow> unzip \<Rightarrow> string \<Rightarrow> string \<Rightarrow> js_error + string \<times> string" where
  "extractZipAndFindInDesignFile e unzip zipPath extractPath =
     (case extract_body e unzip zipPath extractPath of
        Inr r \<Rightarrow> Inr r
      | Inl error \<Rightarrow>
          if str_includes (message error) ''No InDesign file'' then Inl error
          else Inl (new_Error (''Failed to extract zip file: '' @ message error)))"

section \<open>Notions used to state the properties\<close>

text \<open>
  What a child does before it closes: it writes output and it ends. The chunks add up to
  the text of each stream.
\<close>

fun before_close :: "event \<Rightarrow> bool" where
  "before_close (StdoutData d) = True"
| "before_close (StderrData d) = True"
| "before_close ExitEvent = True"
| "before_close ev = False"

fun stdout_of :: "(nat \<times> event) list \<Rightarrow> string" where
  "stdout_of [] = []"
| "stdout_of ((t, StdoutData d) # tes) = d @ stdout_of tes"
| "stdout_of (te # tes) = stdout_of tes"

fun stderr_of :: "(nat \<times> event) list \<Rightarrow> string" where
  "stderr_of [] = []"
| "stderr_of ((t, StderrData d) # tes) = d @ stderr_of tes"
| "stderr_of (te # tes) = stderr_of tes"

text \<open>A directory the search passes over: a hidden one, or the archive's metadata folder.\<close>

definition skipped_dir :: "string \<Rightarrow> bool" where
  "skipped_dir name = (startsWith name ''.'' \<or> name = ''__MACOSX'')"

text \<open>
  The depth-first traversal of a tree: the regular files in the order in which they are
  met, each with its name and its full path, without the content of skipped directories.
\<close>

fun traversal :: "env \<Rightarrow> string \<Rightarrow> listing \<Rightarrow> (string \<times> string) list"
  and traversal_entries :: "env \<Rightarrow> string \<Rightarrow> entry list \<Rightarrow> (string \<times> string) list" where
  "traversal e dirPath (Unreadable error) = []"
| "traversal e dirPath (Entries entries) = traversal_entries e dirPath entries"
| "traversal_entries e dirPath [] = []"
| "traversal_entries e dirPath (FileEntry name # entries) =
     (name, path_join e dirPath name) # traversal_entries e dirPath entries"
| "traversal_entries e dirPath (DirEntry name sub # entries) =
     (if skipped_dir name then [] else traversal e (path_join e dirPath name) sub) @
     traversal_entries e dirPath entries"
| "traversal_entries e dirPath (OtherEntry name # entries) = traversal_entries e dirPath entries"

text \<open>Every directory that is not skipped can be read.\<close>

fun readable :: "listing \<Rightarrow> bool"
  and readable_entries :: "entry list \<Rightarrow> bool" where
  "readable (Unreadable error) = False"
| "readable (Entries entries) = readable_entries entries"
| "readable_entries [] = True"
| "readable_entries (DirEntry name sub # entries) =
     ((skipped_dir name \<or> readable sub) \<and> readable_entries entries)"
| "readable_entries (FileEntry name # entries) = readable_entries entries"
| "readable_entries (OtherEntry name # entries) = readable_entries entries"

text \<open>A file name with the extension of an InDesign document, in any capitalisation.\<close>

definition indesign_name :: "string \<Rightarrow> string \<Rightarrow> bool" where
  "indesign_name plat name =
     (toLowerCase (path_extname plat name) = ''.indd'' \<or>
      toLowerCase (path_extname plat name) = ''.idml'')"

text \<open>The path of the PDF that a conversion of \<open>indesignFilePath\<close> into \<open>outputDir\<close> writes.\<close>

definition pdfPath_of :: "env \<Rightarrow> string \<Rightarrow> string \<Rightarrow> string" where
  "pdfPath_of e indesignFilePath outputDir =
     path_join e outputDir
       (path_basename e indesignFilePath (path_extname (platform e) indesignFilePath) @ ''.pdf'')"

text \<open>The first InDesign document of a traversal, if there is one.\<close>

definition first_document :: "string \<Rightarrow> (string \<times> string) list \<Rightarrow> string option" where
  "first_document plat visited =
     map_option snd (find (\<lambda>np. indesign_name plat (fst np)) visited)"

text \<open>
  What holds of the runner at every moment: no \<^verbatim>\<open>SIGKILL\<close> has been sent, and while
  the inner timer is pending a signal has been sent or the child is gone.
\<close>

definition no_escalation :: "runner \<Rightarrow> bool" where
  "no_escalation s =
     (''SIGKILL'' \<notin> set (signals s) \<and> (grace_at s \<noteq> None \<longrightarrow> killed s \<or> \<not> running s))"

section \<open>Example runs\<close>

text \<open>
  Concrete surroundings on which the theorems below are exercised: a join and a basename
  for tidy POSIX paths, a macOS and a Windows host, a file system holding one document,
  and three children: one that exports the PDF and exits with 0, one that exits with 0
  without writing anything, and one that never reports anything.
\<close>

definition example_join :: "string \<Rightarrow> string \<Rightarrow> string" where
  "example_join d n = d @ ''/'' @ n"

definition example_basename :: "string \<Rightarrow> string \<Rightarrow> string" where
  "example_basename p ext =
     (let b = rev (takeWhile (\<lambda>c. c \<noteq> CHR ''/'') (rev p))
      in if ext \<noteq> [] \<and> length ext < length b \<and> drop (length b - length ext) b = ext
         then take (length b - length ext) b else b)"

definition mac_env :: env where
  "mac_env =
     \<lparr>platform = ''darwin'', tmpdir = ''/tmp'', now = 1000,
      INDESIGN_APP_PATH = Some ''/Applications/Adobe InDesign 2025/Adobe InDesign 2025.app/Contents/MacOS/Adobe InDesign 2025'',
      path_join = example_join, path_basename = example_basename\<rparr>"

definition win_env :: env where
  "win_env =
     \<lparr>platform = ''win32'', tmpdir = ''/tmp'', now = 1000, INDESIGN_APP_PATH = None,
      path_join = example_join, path_basename = example_basename\<rparr>"

definition start_world :: world where
  "start_world =
     \<lparr>files = [''/work/doc.indd'' \<mapsto> ''INDD''], dirs = {''/work'', ''/tmp''},
      denied = {}, console = []\<rparr>"

definition exporting_child :: child where
  "exporting_child cmd args w =
     ([(3000, StdoutData ''SUCCESS''), (3500, CloseEvent (Some 0))],
      w\<lparr>files := (files w)(''/work/out/doc.pdf'' \<mapsto> ''%PDF'')\<rparr>)"

definition idle_child :: child where
  "idle_child cmd args w = ([(3500, CloseEvent (Some 0))], w)"

definition hanging_child :: child where
  "hanging_child cmd args w = ([], w)"

definition readme_unzip :: unzip where
  "readme_unzip zipPath extractPath = Inr (Entries [FileEntry ''readme.txt''])"

definition nested_tree :: listing where
  "nested_tree =
     Entries
       [DirEntry ''__MACOSX'' (Entries [FileEntry ''._doc.indd'', FileEntry ''ghost.indd'']),
        DirEntry ''.git'' (Unreadable (EACCES ''scandir'' ''/work/.git'')),
        FileEntry ''notes.txt'',
        DirEntry ''job'' (Entries [OtherEntry ''link.indd'', FileEntry ''Cover.INDD'']),
        FileEntry ''late.idml'']"

definition nested_unzip :: unzip where
  "nested_unzip zipPath extractPath = Inr nested_tree"

definition broken_unzip :: unzip where
  "broken_unzip zipPath extractPath =
     Inl (new_Error ''ADM-ZIP: Invalid or unsupported zip format. No END header found'')"


section \<open>Facts about the runner\<close>

lemma run_events_append:
  "run_events p (xs @ ys) s = run_events p ys (run_events p xs s)"
  by (induction xs arbitrary: s) simp_all

lemma fire_due_idle:
  "timeout_at s = Some d \<Longrightarrow> t < d \<Longrightarrow> grace_at s = None \<Longrightarrow> fire_due t s = s"
  by (simp add: fire_due_def)

lemma run_data_events:
  assumes "\<forall>te \<in> set ds. before_close (snd te) \<and> fst te < d"
    and "timeout_at s = Some d" and "grace_at s = None"
  shows "\<exists>r. run_events p ds s =
    s\<lparr>stdout := stdout s @ stdout_of ds, stderr := stderr s @ stderr_of ds, running := r\<rparr>"
  using assms
proof (induction ds arbitrary: s)
  case Nil
  have "run_events p [] s =
      s\<lparr>stdout := stdout s @ stdout_of [], stderr := stderr s @ stderr_of [],
        running := running s\<rparr>"
    by simp
  then show ?case by (rule exI)
next
  case (Cons te ds)
  obtain t ev where te: "te = (t, ev)" by (cases te)
  from Cons.prems te have t: "t < d" and ev: "before_close ev" by simp_all
  have idle: "fire_due t s = s"
    using Cons.prems(2,3) t by (simp add: fire_due_idle)
  let ?s = "handle p ev s"
  have step: "run_events p (te # ds) s = run_events p ds ?s"
    by (simp add: te deliver_def idle)
  have kept: "timeout_at ?s = Some d" "grace_at ?s = None"
    using ev Cons.prems(2,3)
    by (cases ev; simp add: handle_def on_stdout_def on_stderr_def)+
  have "\<exists>r. run_events p ds ?s =
      ?s\<lparr>stdout := stdout ?s @ stdout_of ds, stderr := stderr ?s @ stderr_of ds, running := r\<rparr>"
    using Cons.prems(1) kept by (intro Cons.IH) simp_all
  then obtain r where run: "run_events p ds ?s =
      ?s\<lparr>stdout := stdout ?s @ stdout_of ds, stderr := stderr ?s @ stderr_of ds, running := r\<rparr>"
    by blast
  have "?s\<lparr>stdout := stdout ?s @ stdout_of ds, stderr := stderr ?s @ stderr_of ds, running := r\<rparr> =
      s\<lparr>stdout := stdout s @ stdout_of (te # ds), stderr := stderr s @ stderr_of (te # ds),
        running := r\<rparr>"
    using ev by (cases ev) (simp_all add: te handle_def on_stdout_def on_stderr_def)
  with step run show ?case by auto
qed

text \<open>Three runs that the examples below go through.\<close>

lemma resolved_run:
  "promise (runner_at cmd 1000 [(3000, StdoutData ''SUCCESS''), (3500, CloseEvent (Some 0))]
      (1000 + timeout_ms)) = Resolved ''SUCCESS''"
  by (simp add: runner_at_def deliver_def handle_def fire_due_def spawn_state_def
      timeout_ms_def on_stdout_def on_close_def filteredStderr_def trim_def settle_def
      startsWith_def)

lemma quiet_run:
  "promise (runner_at cmd 1000 [(3500, CloseEvent (Some 0))] (1000 + timeout_ms)) = Resolved []"
  by (simp add: runner_at_def deliver_def handle_def fire_due_def spawn_state_def
      timeout_ms_def on_close_def filteredStderr_def trim_def settle_def startsWith_def)


section \<open>Evaluating the examples\<close>

lemmas fs_defs = checkFileExists_def access_def writeFile_def unlink_def unlink_quiet_def
  mkdir_recursive_def

lemmas run_defs = executeInDesignScript_def runInDesignWithScript_def
  resolve_indesignPath_def spawn_and_wait_def Let_def

lemma win_platform: "platform win_env = ''win32''" "now win_env = 1000"
  "indesignAppPath win_env = None"
  by (simp_all add: win_env_def indesignAppPath_def)

lemma mac_facts: "platform mac_env = ''darwin''" "now mac_env = 1000"
  "indesignAppPath mac_env = Some ''/Applications/Adobe InDesign 2025/Adobe InDesign 2025.app/Contents/MacOS/Adobe InDesign 2025''"
  by (simp_all add: mac_env_def indesignAppPath_def)

lemma pdf_example: "pdfPath_of win_env ''/work/doc.indd'' ''/work/out'' = ''/work/out/doc.pdf''"
  by code_simp

lemma scriptPath_example: "scriptPath_of win_env = ''/tmp/indesign_export_1000.jsx''"
  by code_simp

lemma mac_scriptPath: "scriptPath_of mac_env = ''/tmp/indesign_export_1000.jsx''"
  by code_simp

lemma scpt_path: "replace_first ''.jsx'' ''.scpt'' ''/tmp/indesign_export_1000.jsx'' =
    ''/tmp/indesign_export_1000.scpt''"
  by code_simp

section \<open>The outcome of a process that ended\<close>

text \<open>
  C1, as the code has it. A child writes output, ends and then closes with exit code
  \<open>c\<close>, all before the five minutes are over. The promise is resolved with the accumulated stdout
  exactly when \<open>c\<close> is zero and the filtered stderr does not contain \<^verbatim>\<open>ERROR:\<close>;
  otherwise it is rejected with the error "InDesign script execution failed: ...".
  The stdout text is not searched for the marker.
\<close>

theorem close_classification:
  assumes "\<forall>te \<in> set ds. before_close (snd te) \<and> fst te < t0 + timeout_ms"
    and "t < t0 + timeout_ms"
  shows "promise (runner_at p t0 (ds @ [(t, CloseEvent c)]) t') =
     (if c = Some 0 \<and> \<not> str_includes (filteredStderr (stderr_of ds)) ''ERROR:''
      then Resolved (stdout_of ds)
      else Rejected (new_Error (''InDesign script execution failed: '' @
             failure_detail c (filteredStderr (stderr_of ds)) (stdout_of ds))))"
proof -
  obtain r where "run_events p ds (spawn_state t0) =
      (spawn_state t0)\<lparr>stdout := stdout_of ds, stderr := stderr_of ds, running := r\<rparr>"
    using run_data_events [OF assms(1), of "spawn_state t0" p]
    by (auto simp: spawn_state_def)
  then have run: "run_events p (ds @ [(t, CloseEvent c)]) (spawn_state t0) =
      on_close c ((spawn_state t0)\<lparr>stdout := stdout_of ds, stderr := stderr_of ds,
        running := False\<rparr>)"
    using assms(2)
    by (simp add: run_events_append deliver_def handle_def fire_due_def spawn_state_def)
  show ?thesis
    unfolding runner_at_def run
    by (simp add: on_close_def Let_def settle_def fire_due_def spawn_state_def)
qed

theorem close_classification_witness:
  "promise (runner_at ''osascript'' 0
      ([(10, StdoutData ''done''), (20, StderrData ''objc[7]: ERROR: x''), (25, ExitEvent)] @
       [(30, CloseEvent (Some 0))]) 40) = Resolved ''done''"
  using close_classification
    [where ds = "[(10, StdoutData ''done''), (20, StderrData ''objc[7]: ERROR: x''), (25, ExitEvent)]"
       and ?t0.0 = 0 and t = 30 and p = "''osascript''" and c = "Some 0" and t' = 40]
  by (simp add: timeout_ms_def filteredStderr_def noise_line_def startsWith_def trim_def)

text \<open>
  C1 as the specification words it fails: with exit code zero, nothing on stderr and the
  marker \<^verbatim>\<open>ERROR:\<close> on stdout, the promise is resolved.
\<close>

theorem stdout_marker_counterexample:
  "promise (runner_at ''osascript'' 0
      [(1, StdoutData ''ERROR: export failed''), (2, CloseEvent (Some 0))] 3) =
     Resolved ''ERROR: export failed'' \<and>
   str_includes ''ERROR: export failed'' ''ERROR:'' \<and>
   \<not> str_includes (filteredStderr []) ''ERROR:''"
  by (simp add: runner_at_def deliver_def handle_def fire_due_def spawn_state_def
      timeout_ms_def on_stdout_def on_close_def filteredStderr_def trim_def settle_def
      startsWith_def)

section \<open>The conversion verifies its artifact\<close>

lemma convert_success_exists:
  assumes "convertInDesignToPDF e child i d w = (w', Some (Inr p))"
  shows "checkFileExists p w' \<and> p = pdfPath_of e i d"
  using assms
  by (auto simp: convertInDesignToPDF_def convert_body_def pdfPath_of_def Let_def
      split: if_splits sum.splits prod.splits option.splits)

lemma convert_absent_fails:
  assumes "checkFileExists i w" and "mkdir_recursive d w = Inr w1"
    and "executeInDesignScript e child i (pdfPath_of e i d) w1 = (w2, Some (Inr ()))"
    and "\<not> checkFileExists (pdfPath_of e i d) w2"
  shows "convertInDesignToPDF e child i d w =
    (w2, Some (Inl (new_Error ''Failed to convert InDesign to PDF: PDF was not generated successfully'')))"
  using assms
  by (simp add: convertInDesignToPDF_def convert_body_def pdfPath_of_def Let_def new_Error_def)

text \<open>
  C2. When \<^verbatim>\<open>convertInDesignToPDF\<close> returns a path, that path exists in the file system
  it returns with, and it is the PDF path derived from the input. When the script run
  reports success and the PDF is not there, the conversion fails with the message
  "PDF was not generated successfully" (behind the prefix of the conversion).
\<close>

theorem convert_verifies_artifact:
  "(convertInDesignToPDF e child i d w = (w', Some (Inr p)) \<longrightarrow>
      checkFileExists p w' \<and> p = pdfPath_of e i d) \<and>
   (checkFileExists i w \<and> mkdir_recursive d w = Inr w1 \<and>
    executeInDesignScript e child i (pdfPath_of e i d) w1 = (w2, Some (Inr ())) \<and>
    \<not> checkFileExists (pdfPath_of e i d) w2 \<longrightarrow>
      convertInDesignToPDF e child i d w =
        (w2, Some (Inl (new_Error
           ''Failed to convert InDesign to PDF: PDF was not generated successfully''))))"
  using convert_success_exists convert_absent_fails by blast

theorem convert_verifies_artifact_witness:
  "checkFileExists ''/work/out/doc.pdf''
     (fst (convertInDesignToPDF win_env exporting_child ''/work/doc.indd'' ''/work/out'' start_world)) \<and>
   snd (convertInDesignToPDF win_env idle_child ''/work/doc.indd'' ''/work/out'' start_world) =
     Some (Inl (new_Error
       ''Failed to convert InDesign to PDF: PDF was not generated successfully''))"
proof -
  let ?i = "''/work/doc.indd''" and ?d = "''/work/out''" and ?p = "''/work/out/doc.pdf''"
  let ?good = "convertInDesignToPDF win_env exporting_child ?i ?d start_world"
  let ?w1 = "start_world\<lparr>dirs := insert ?d (dirs start_world)\<rparr>"
  let ?exec = "executeInDesignScript win_env idle_child ?i (pdfPath_of win_env ?i ?d) ?w1"
  have "snd ?good = Some (Inr ?p)"
    using pdf_example
    by (simp add: convertInDesignToPDF_def convert_body_def pdfPath_of_def run_defs
        exporting_child_def scriptPath_example resolved_run win_platform fs_defs start_world_def)
  then have good: "?good = (fst ?good, Some (Inr ?p))"
    by (simp add: prod_eq_iff)
  have src: "checkFileExists ?i start_world"
    by (simp add: fs_defs start_world_def)
  have dir: "mkdir_recursive ?d start_world = Inr ?w1"
    by (simp add: fs_defs start_world_def)
  have "snd ?exec = Some (Inr ())"
    by (simp add: pdf_example run_defs idle_child_def scriptPath_example quiet_run
        win_platform fs_defs start_world_def)
  then have exec: "?exec = (fst ?exec, Some (Inr ()))"
    by (simp add: prod_eq_iff)
  have absent: "\<not> checkFileExists (pdfPath_of win_env ?i ?d) (fst ?exec)"
    by (simp add: pdf_example run_defs idle_child_def scriptPath_example quiet_run
        win_platform fs_defs start_world_def)
  have first: "checkFileExists ?p (fst ?good)"
    using convert_verifies_artifact
      [where e = win_env and child = exporting_child and i = ?i and d = ?d
         and w = start_world and w' = "fst ?good" and p = ?p,
       THEN conjunct1, rule_format, OF good]
    by (rule conjunct1)
  have "convertInDesignToPDF win_env idle_child ?i ?d start_world =
      (fst ?exec, Some (Inl (new_Error
         ''Failed to convert InDesign to PDF: PDF was not generated successfully'')))"
    using src dir exec absent
    by (intro convert_verifies_artifact
      [where e = win_env and child = idle_child and i = ?i and d = ?d
         and w = start_world and ?w1.0 = ?w1 and ?w2.0 = "fst ?exec",
       THEN conjunct2, rule_format] conjI)
  then have second: "snd (convertInDesignToPDF win_env idle_child ?i ?d start_world) =
      Some (Inl (new_Error
         ''Failed to convert InDesign to PDF: PDF was not generated successfully''))"
    by (simp only: snd_conv)
  from first second show ?thesis by (rule conjI)
qed

section \<open>The timeout\<close>

text \<open>
  At every moment of every run no \<^verbatim>\<open>SIGKILL\<close> has been sent: the inner timer sends it
  only while \<^verbatim>\<open>childProcess.killed\<close> is false, and the \<^verbatim>\<open>SIGTERM\<close> that reached a
  running child has made it true.
\<close>

lemma no_escalation_spawn: "no_escalation (spawn_state t0)"
  by (simp add: no_escalation_def spawn_state_def)

lemma no_escalation_handle: "no_escalation s \<Longrightarrow> no_escalation (handle p ev s)"
  by (cases ev)
    (auto simp: no_escalation_def handle_def on_stdout_def on_stderr_def on_error_def
      on_close_def settle_def Let_def)

lemma no_escalation_fire_due: "no_escalation s \<Longrightarrow> no_escalation (fire_due t s)"
  by (auto simp: no_escalation_def fire_due_def on_timeout_def on_grace_def kill_def
      settle_def Let_def split: option.splits)

lemma no_escalation_run: "no_escalation s \<Longrightarrow> no_escalation (run_events p tes s)"
  by (induction tes arbitrary: s)
    (simp_all add: deliver_def no_escalation_handle no_escalation_fire_due)

lemma SIGKILL_never_sent: "''SIGKILL'' \<notin> set (signals (runner_at p t0 tes t))"
  using no_escalation_fire_due [OF no_escalation_run [OF no_escalation_spawn]]
  by (simp add: runner_at_def no_escalation_def)

text \<open>
  C3 on a child that ignores \<^verbatim>\<open>SIGTERM\<close> and never reports anything. Five minutes
  (300000 ms) after the spawn the promise is rejected with the timeout error and
  \<^verbatim>\<open>SIGTERM\<close> is sent. One minute after the grace period of 5000 ms the inner timer has
  run, the child is still running, and \<^verbatim>\<open>SIGTERM\<close> is the only signal that was sent:
  the forceful termination that C3 asks for does not happen.
\<close>

theorem grace_timer_sends_no_SIGKILL:
  "promise (runner_at ''osascript'' 1000 [] (1000 + timeout_ms + grace_ms + 60000)) =
     Rejected (new_Error timeout_message) \<and>
   signals (runner_at ''osascript'' 1000 [] (1000 + timeout_ms + grace_ms + 60000)) = [''SIGTERM''] \<and>
   running (runner_at ''osascript'' 1000 [] (1000 + timeout_ms + grace_ms + 60000)) \<and>
   grace_at (runner_at ''osascript'' 1000 [] (1000 + timeout_ms + grace_ms + 60000)) = None \<and>
   timeout_ms = 300000 \<and> grace_ms = 5000"
  by (simp add: runner_at_def fire_due_def spawn_state_def on_timeout_def on_grace_def
      kill_def settle_def timeout_ms_def grace_ms_def)

section \<open>The temporary scripts\<close>

text \<open>
  C4 on macOS, on a run that succeeds. The ExtendScript file is gone afterwards, and the
  AppleScript wrapper written next to it is still there: the source never removes it.
\<close>

theorem wrapper_script_left_behind:
  "snd (executeInDesignScript mac_env exporting_child ''/work/doc.indd'' ''/work/out/doc.pdf''
          start_world) = Some (Inr ()) \<and>
   files (fst (executeInDesignScript mac_env exporting_child ''/work/doc.indd''
          ''/work/out/doc.pdf'' start_world)) ''/tmp/indesign_export_1000.jsx'' = None \<and>
   files (fst (executeInDesignScript mac_env exporting_child ''/work/doc.indd''
          ''/work/out/doc.pdf'' start_world)) ''/tmp/indesign_export_1000.scpt'' =
     Some (appleScriptContent ''/tmp/indesign_export_1000.jsx'')"
  by (simp add: run_defs exporting_child_def mac_scriptPath scpt_path resolved_run
      mac_facts fs_defs start_world_def del: replace_first.simps)

section \<open>The binary that is spawned\<close>

text \<open>
  On Windows the command given to \<^verbatim>\<open>spawn\<close> is the configured path, or the default
  one when nothing is configured.
\<close>

lemma win32_spawns_resolved_path:
  assumes "platform e = ''win32''"
  shows "spawned (runInDesignWithScript e child scriptPath w) =
    Some (case indesignAppPath e of Some p \<Rightarrow> p | None \<Rightarrow> default_win32,
          [''-ScriptPath'', scriptPath])"
  using assms
  by (cases "child (case indesignAppPath e of Some p \<Rightarrow> p | None \<Rightarrow> default_win32)
        [''-ScriptPath'', scriptPath] w")
    (simp add: runInDesignWithScript_def resolve_indesignPath_def spawn_and_wait_def
      split: option.splits)

text \<open>
  C7 on macOS. With \<^verbatim>\<open>INDESIGN_APP_PATH\<close> set to the executable of InDesign 2025, and
  with the setting absent, the command given to \<^verbatim>\<open>spawn\<close> is \<^verbatim>\<open>osascript\<close> with the
  wrapper as its argument; the wrapper addresses the application "Adobe InDesign 2026"
  by name. The configured path is not used.
\<close>

theorem darwin_ignores_configured_path:
  "indesignAppPath mac_env =
     Some ''/Applications/Adobe InDesign 2025/Adobe InDesign 2025.app/Contents/MacOS/Adobe InDesign 2025'' \<and>
   spawned (runInDesignWithScript mac_env exporting_child ''/tmp/indesign_export_1000.jsx''
     start_world) = Some (''osascript'', [''/tmp/indesign_export_1000.scpt'']) \<and>
   spawned (runInDesignWithScript (mac_env\<lparr>INDESIGN_APP_PATH := None\<rparr>) exporting_child
     ''/tmp/indesign_export_1000.jsx'' start_world) =
     Some (''osascript'', [''/tmp/indesign_export_1000.scpt''])"
  by (simp add: run_defs exporting_child_def scpt_path mac_facts fs_defs start_world_def
      mac_env_def indesignAppPath_def del: replace_first.simps)

section \<open>Locating the document\<close>

lemma traversal_paths_nonempty:
  assumes "\<forall>d n. path_join e d n \<noteq> []"
  shows "\<forall>np \<in> set (traversal e dirPath tree). snd np \<noteq> []"
    and "\<forall>np \<in> set (traversal_entries e dirPath entries). snd np \<noteq> []"
  using assms
  by (induction e dirPath tree and e dirPath entries rule: traversal_traversal_entries.induct) auto

lemma first_document_Nil: "first_document plat [] = None"
  by (simp add: first_document_def)

lemma first_document_Cons:
  "first_document plat ((n, p) # xs) =
     (if indesign_name plat n then Some p else first_document plat xs)"
  by (simp add: first_document_def)

lemma first_document_append:
  "first_document plat (xs @ ys) =
     (case first_document plat xs of None \<Rightarrow> first_document plat ys | Some p \<Rightarrow> Some p)"
  by (induction xs) (simp_all add: first_document_def)

lemma first_document_truthy:
  assumes "\<forall>np \<in> set visited. snd np \<noteq> []"
  shows "truthy (first_document plat visited) \<longleftrightarrow> first_document plat visited \<noteq> None"
proof (cases "find (\<lambda>np. indesign_name plat (fst np)) visited")
  case None
  then show ?thesis by (simp add: first_document_def truthy_def)
next
  case (Some np)
  then have "np \<in> set visited"
    by (auto simp: find_Some_iff)
  with assms have "snd np \<noteq> []" by blast
  with Some show ?thesis by (simp add: first_document_def truthy_def)
qed

lemma find_is_first_document:
  shows "\<forall>d n. path_join e d n \<noteq> [] \<Longrightarrow> readable tree \<Longrightarrow>
      findInDesignFile e dirPath tree = Inr (first_document (platform e) (traversal e dirPath tree))"
    and "\<forall>d n. path_join e d n \<noteq> [] \<Longrightarrow> readable_entries entries \<Longrightarrow>
      scan_entries e dirPath entries =
        Inr (first_document (platform e) (traversal_entries e dirPath entries))"
proof (induction e dirPath tree and e dirPath entries rule: findInDesignFile_scan_entries.induct)
  case (1 e dirPath error)
  then show ?case by simp
next
  case (2 e dirPath entries)
  then show ?case by simp
next
  case (3 e dirPath)
  then show ?case by (simp add: first_document_Nil)
next
  case (4 e dirPath name sub entries)
  show ?case
  proof (cases "skipped_dir name")
    case True
    with 4 show ?thesis by (simp add: skipped_dir_def)
  next
    case False
    let ?sub = "traversal e (path_join e dirPath name) sub"
    from False 4 have sub: "findInDesignFile e (path_join e dirPath name) sub =
        Inr (first_document (platform e) ?sub)"
      by (simp add: skipped_dir_def)
    have t: "truthy (first_document (platform e) ?sub) \<longleftrightarrow>
        first_document (platform e) ?sub \<noteq> None"
      using traversal_paths_nonempty(1) [OF "4.prems"(1)] by (rule first_document_truthy)
    show ?thesis
    proof (cases "first_document (platform e) ?sub")
      case None
      with False 4 sub t show ?thesis
        by (simp add: skipped_dir_def first_document_append)
    next
      case (Some p)
      with False sub t show ?thesis
        by (simp add: skipped_dir_def first_document_append)
    qed
  qed
next
  case (5 e dirPath name entries)
  then show ?case
    by (simp add: first_document_Cons indesign_name_def Let_def)
next
  case (6 e dirPath name entries)
  then show ?case by simp
qed

text \<open>
  C5. For a tree that was extracted, in which every directory that is not skipped can be
  read, \<^verbatim>\<open>extractZipAndFindInDesignFile\<close> returns the first file of the depth-first
  traversal whose extension is \<^verbatim>\<open>.indd\<close> or \<^verbatim>\<open>.idml\<close> (compared in lower case); the
  traversal leaves out the directories whose name starts with a dot or is
  \<^verbatim>\<open>__MACOSX\<close>. When the traversal has no such file, the call fails with the not-found
  error, whose message contains "No InDesign file". (\<^verbatim>\<open>path.join\<close> never returns the
  empty string; that is the third hypothesis.)
\<close>

theorem locate_first_document:
  assumes "unzip zipPath extractPath = Inr tree" and "readable tree"
    and "\<forall>d n. path_join e d n \<noteq> []"
  shows "extractZipAndFindInDesignFile e unzip zipPath extractPath =
      (case first_document (platform e) (traversal e extractPath tree) of
         Some p \<Rightarrow> Inr (p, extractPath)
       | None \<Rightarrow> Inl not_found) \<and>
    str_includes (message not_found) ''No InDesign file''"
proof -
  let ?visited = "traversal e extractPath tree"
  have marker: "str_includes (message not_found) ''No InDesign file''"
    by (simp add: not_found_def new_Error_def startsWith_def)
  have found: "findInDesignFile e extractPath tree = Inr (first_document (platform e) ?visited)"
    using assms(3,2) by (rule find_is_first_document(1))
  have t: "truthy (first_document (platform e) ?visited) \<longleftrightarrow>
      first_document (platform e) ?visited \<noteq> None"
    using traversal_paths_nonempty(1) [OF assms(3)] by (rule first_document_truthy)
  have "extractZipAndFindInDesignFile e unzip zipPath extractPath =
      (case first_document (platform e) ?visited of
         Some p \<Rightarrow> Inr (p, extractPath)
       | None \<Rightarrow> Inl not_found)"
  proof (cases "first_document (platform e) ?visited")
    case None
    with assms(1) found marker show ?thesis
      by (simp add: extractZipAndFindInDesignFile_def extract_body_def)
  next
    case (Some p)
    with t have "p \<noteq> []" by (simp add: truthy_def)
    with Some assms(1) found show ?thesis
      by (simp add: extractZipAndFindInDesignFile_def extract_body_def)
  qed
  with marker show ?thesis by simp
qed

theorem locate_first_document_witness:
  "extractZipAndFindInDesignFile mac_env nested_unzip ''/up/a.zip'' ''/work'' =
     Inr (''/work/job/Cover.INDD'', ''/work'')"
proof -
  have tree: "nested_unzip ''/up/a.zip'' ''/work'' = Inr nested_tree"
    by (simp add: nested_unzip_def)
  have ok: "readable nested_tree"
    by code_simp
  have join: "\<forall>d n. path_join mac_env d n \<noteq> []"
    by (simp add: mac_env_def example_join_def)
  have first: "first_document (platform mac_env) (traversal mac_env ''/work'' nested_tree) =
      Some ''/work/job/Cover.INDD''"
    by code_simp
  show ?thesis
    using locate_first_document [of nested_unzip "''/up/a.zip''" "''/work''" nested_tree mac_env,
        OF tree ok join]
    by (simp add: first)
qed

section \<open>The extension is compared in lower case\<close>

lemma loop_plain:
  assumes "\<forall>i. lo \<le> i \<and> i < hi \<longrightarrow> \<not> is_sep (path ! i) \<and> path ! i \<noteq> CHR ''.''"
    and "start \<le> lo" and "lo \<le> hi" and "startDot st = - 1"
  shows "extname_loop is_sep path start hi st =
    extname_loop is_sep path start lo
      (if lo < hi \<and> end_pos st = - 1 then st\<lparr>matchedSlash := False, end_pos := int hi\<rparr> else st)"
  using assms
proof (induction hi arbitrary: st)
  case 0
  then show ?case by simp
next
  case (Suc h)
  show ?case
  proof (cases "lo = Suc h")
    case True
    then show ?thesis by simp
  next
    case False
    with Suc.prems have lo: "lo \<le> h" by simp
    with Suc.prems have c: "\<not> is_sep (path ! h)" "path ! h \<noteq> CHR ''.''" "\<not> h < start"
      by auto
    let ?st1 = "if end_pos st = - 1 then st\<lparr>matchedSlash := False, end_pos := int h + 1\<rparr> else st"
    have step: "ext_step (path ! h) h st = ?st1"
      using c Suc.prems(4) by (simp add: ext_step_def Let_def)
    have dot: "startDot ?st1 = - 1"
      using Suc.prems(4) by simp
    have "extname_loop is_sep path start h ?st1 =
        extname_loop is_sep path start lo
          (if lo < h \<and> end_pos ?st1 = - 1
           then ?st1\<lparr>matchedSlash := False, end_pos := int h\<rparr> else ?st1)"
      using Suc.prems(1,2) lo dot by (intro Suc.IH) auto
    then show ?thesis
      using c lo step by (auto simp: add.commute)
  qed
qed

lemma loop_stem:
  assumes "\<forall>i < hi. \<not> is_sep (path ! i)" and "startDot st \<noteq> - 1" and "end_pos st \<noteq> - 1"
  shows "startDot (extname_loop is_sep path 0 hi st) = startDot st \<and>
    end_pos (extname_loop is_sep path 0 hi st) = end_pos st \<and>
    startPart (extname_loop is_sep path 0 hi st) = startPart st \<and>
    (0 < hi \<or> preDotState st \<noteq> 0 \<longrightarrow> preDotState (extname_loop is_sep path 0 hi st) \<noteq> 0)"
  using assms
proof (induction hi arbitrary: st)
  case 0
  then show ?case by simp
next
  case (Suc h)
  let ?st' = "ext_step (path ! h) h st"
  have keep: "startDot ?st' = startDot st" "end_pos ?st' = end_pos st"
    "startPart ?st' = startPart st" "preDotState ?st' \<noteq> 0"
    using Suc.prems(2,3) by (auto simp: ext_step_def Let_def)
  have "startDot (extname_loop is_sep path 0 h ?st') = startDot ?st' \<and>
    end_pos (extname_loop is_sep path 0 h ?st') = end_pos ?st' \<and>
    startPart (extname_loop is_sep path 0 h ?st') = startPart ?st' \<and>
    (0 < h \<or> preDotState ?st' \<noteq> 0 \<longrightarrow> preDotState (extname_loop is_sep path 0 h ?st') \<noteq> 0)"
    using Suc.prems keep by (intro Suc.IH) auto
  with keep Suc.prems(1) show ?case by simp
qed

lemma extname_stem_ext:
  assumes "stem \<noteq> []" and "ext \<noteq> []"
    and "\<forall>c \<in> set stem. \<not> is_sep c"
    and "\<forall>c \<in> set ext. \<not> is_sep c \<and> c \<noteq> CHR ''.''"
    and "\<not> is_sep CHR ''.''"
  shows "extname_result (stem @ ''.'' @ ext)
      (extname_loop is_sep (stem @ ''.'' @ ext) 0 (length (stem @ ''.'' @ ext)) (ext_init 0)) =
    ''.'' @ ext"
proof -
  let ?path = "stem @ ''.'' @ ext"
  let ?k = "length stem" and ?n = "length ?path"
  have n: "?n = Suc ?k + length ext" by simp
  have ext_part: "\<forall>i. Suc ?k \<le> i \<and> i < ?n \<longrightarrow> \<not> is_sep (?path ! i) \<and> ?path ! i \<noteq> CHR ''.''"
  proof (intro allI impI)
    fix i assume i: "Suc ?k \<le> i \<and> i < ?n"
    then have "?path ! i = ext ! (i - Suc ?k)"
      by (simp add: nth_append nth_Cons')
    moreover from i have "ext ! (i - Suc ?k) \<in> set ext"
      by (intro nth_mem) auto
    ultimately show "\<not> is_sep (?path ! i) \<and> ?path ! i \<noteq> CHR ''.''"
      using assms(4) by simp
  qed
  let ?st2 = "(ext_init 0)\<lparr>matchedSlash := False, end_pos := int ?n\<rparr>"
  have lt: "Suc ?k < ?n" using assms(2) by (cases ext) simp_all
  have phase1: "extname_loop is_sep ?path 0 ?n (ext_init 0) =
      extname_loop is_sep ?path 0 (Suc ?k) ?st2"
    using loop_plain [OF ext_part, of 0 "ext_init 0"] lt
    by (simp add: ext_init_def)
  have dot: "?path ! ?k = CHR ''.''" by (simp add: nth_append)
  let ?st3 = "?st2\<lparr>startDot := int ?k\<rparr>"
  have phase2: "extname_loop is_sep ?path 0 (Suc ?k) ?st2 = extname_loop is_sep ?path 0 ?k ?st3"
    using dot assms(5) by (simp add: ext_step_def ext_init_def Let_def)
  have stem_part: "\<forall>i < ?k. \<not> is_sep (?path ! i)"
    using assms(3) by (simp add: nth_append)
  let ?r = "extname_loop is_sep ?path 0 ?k ?st3"
  have k: "0 < ?k" using assms(1) by simp
  have phase3: "startDot ?r = int ?k \<and> end_pos ?r = int ?n \<and> startPart ?r = 0 \<and>
      preDotState ?r \<noteq> 0"
    using loop_stem [OF stem_part, of ?st3] k by (simp add: ext_init_def)
  have res: "extname_result ?path ?r = ''.'' @ ext"
    using phase3 lt by (simp add: extname_result_def)
  show ?thesis
    unfolding phase1 phase2 by (rule res)
qed

lemma lower_fixed:
  "lower_char CHR ''.'' = CHR ''.''" "lower_char CHR ''/'' = CHR ''/''"
  "lower_char backslash = backslash"
  by (simp_all add: lower_char_def backslash_def)

lemma indesign_ext_chars:
  assumes "toLowerCase ext = ''indd'' \<or> toLowerCase ext = ''idml''"
  shows "ext \<noteq> []" and "\<forall>c \<in> set ext. c \<noteq> CHR ''.'' \<and> c \<noteq> CHR ''/'' \<and> c \<noteq> backslash"
proof -
  show "ext \<noteq> []" using assms by (auto simp: toLowerCase_def)
  have low: "set (toLowerCase ext) \<subseteq> set ''indml''"
    using assms by auto
  show "\<forall>c \<in> set ext. c \<noteq> CHR ''.'' \<and> c \<noteq> CHR ''/'' \<and> c \<noteq> backslash"
  proof
    fix c assume "c \<in> set ext"
    then have "lower_char c \<in> set (toLowerCase ext)"
      by (simp add: toLowerCase_def)
    with low have "lower_char c \<in> set ''indml''" by blast
    then show "c \<noteq> CHR ''.'' \<and> c \<noteq> CHR ''/'' \<and> c \<noteq> backslash"
      using lower_fixed by (auto simp: backslash_def)
  qed
qed

lemma extname_of_document:
  assumes "toLowerCase ext = ''indd'' \<or> toLowerCase ext = ''idml''"
    and "stem \<noteq> []" and "CHR ''/'' \<notin> set stem"
    and "plat = ''win32'' \<longrightarrow> backslash \<notin> set stem \<and> CHR '':'' \<notin> set stem"
  shows "path_extname plat (stem @ ''.'' @ ext) = ''.'' @ ext"
proof (cases "plat = ''win32''")
  case False
  have "posix_extname (stem @ ''.'' @ ext) = ''.'' @ ext"
    unfolding posix_extname_def
    using assms(2) indesign_ext_chars [OF assms(1)] assms(3)
    by (intro extname_stem_ext) auto
  with False show ?thesis by (simp add: path_extname_def)
next
  case True
  let ?path = "stem @ ''.'' @ ext"
  have "?path ! 1 \<noteq> CHR '':''"
  proof (cases "length stem = 1")
    case True
    then show ?thesis by (simp add: nth_append)
  next
    case False
    with assms(2) have "1 < length stem" by (cases stem) auto
    then have "?path ! 1 = stem ! 1" "stem ! 1 \<in> set stem"
      by (simp_all add: nth_append)
    with True assms(4) show ?thesis by auto
  qed
  then have start: "(if 2 \<le> length ?path \<and> ?path ! 1 = CHR '':'' \<and> isWindowsDeviceRoot (?path ! 0)
      then 2 else 0) = (0::nat)"
    by simp
  have "extname_result ?path
      (extname_loop isPathSeparator ?path 0 (length ?path) (ext_init 0)) = ''.'' @ ext"
    using assms(2) indesign_ext_chars [OF assms(1)] assms(3,4) True
    by (intro extname_stem_ext) (auto simp: isPathSeparator_def backslash_def)
  then have "win32_extname ?path = ''.'' @ ext"
    unfolding win32_extname_def Let_def start by simp
  with True show ?thesis by (simp add: path_extname_def)
qed

text \<open>
  C10. A file named \<open>stem.ext\<close>, where \<open>ext\<close> is \<^verbatim>\<open>indd\<close> or \<^verbatim>\<open>idml\<close> in any
  capitalisation and \<open>stem\<close> is a non-empty name without a path separator (nor, on
  Windows, a colon), counts as an InDesign document, and the loop of
  \<^verbatim>\<open>findInDesignFile\<close> returns it as soon as it reaches it.
\<close>

theorem extension_case_insensitive:
  assumes "toLowerCase ext = ''indd'' \<or> toLowerCase ext = ''idml''"
    and "stem \<noteq> []" and "CHR ''/'' \<notin> set stem"
    and "platform e = ''win32'' \<longrightarrow> backslash \<notin> set stem \<and> CHR '':'' \<notin> set stem"
  shows "indesign_name (platform e) (stem @ ''.'' @ ext) \<and>
    scan_entries e dirPath (FileEntry (stem @ ''.'' @ ext) # entries) =
      Inr (Some (path_join e dirPath (stem @ ''.'' @ ext)))"
proof -
  have ext: "path_extname (platform e) (stem @ ''.'' @ ext) = ''.'' @ ext"
    using assms by (rule extname_of_document)
  have low: "toLowerCase (''.'' @ ext) = ''.'' @ toLowerCase ext"
    using lower_fixed(1) by (simp add: toLowerCase_def)
  from assms(1) have "toLowerCase (''.'' @ ext) = ''.indd'' \<or> toLowerCase (''.'' @ ext) = ''.idml''"
    unfolding low by auto
  then show ?thesis
    by (simp only: indesign_name_def scan_entries.simps ext Let_def) simp
qed

theorem extension_case_insensitive_witness:
  "indesign_name ''darwin'' (''Cover'' @ ''.'' @ ''IdMl'') \<and>
   scan_entries mac_env ''/work'' (FileEntry (''Cover'' @ ''.'' @ ''IdMl'') # [FileEntry ''b.indd'']) =
     Inr (Some ''/work/Cover.IdMl'')"
proof -
  have low: "toLowerCase ''IdMl'' = ''indd'' \<or> toLowerCase ''IdMl'' = ''idml''"
    by code_simp
  have j: "path_join mac_env ''/work'' ''Cover.IdMl'' = ''/work/Cover.IdMl''"
    by (simp add: mac_env_def example_join_def)
  show ?thesis
    using extension_case_insensitive
      [where ext = "''IdMl''" and stem = "''Cover''" and e = mac_env and dirPath = "''/work''"
         and entries = "[FileEntry ''b.indd'']", OF low]
    by (simp add: mac_facts j)
qed

section \<open>The generated script\<close>








section \<open>Errors on the way up\<close>

text \<open>
  C8, as the code has it. The conversion fails exactly with the errors of its
  \<^verbatim>\<open>try\<close> block, each wrapped as "Failed to convert InDesign to PDF: " followed by the
  original message. The extraction fails exactly with the errors of its \<^verbatim>\<open>try\<close> block:
  one whose message contains "No InDesign file" is passed on as it is, without a prefix;
  every other one is wrapped as "Failed to extract zip file: " followed by the original
  message.
\<close>

theorem failures_are_wrapped:
  "(convertInDesignToPDF e child i d w = (w', Some (Inl err)) \<longleftrightarrow>
      (\<exists>cause. convert_body e child i d w = (w', Some (Inl cause)) \<and>
         err = new_Error (''Failed to convert InDesign to PDF: '' @ message cause))) \<and>
   (extractZipAndFindInDesignFile e unzip z x = Inl err' \<longleftrightarrow>
      (\<exists>cause. extract_body e unzip z x = Inl cause \<and>
         err' = (if str_includes (message cause) ''No InDesign file'' then cause
                 else new_Error (''Failed to extract zip file: '' @ message cause))))"
proof
  show "convertInDesignToPDF e child i d w = (w', Some (Inl err)) \<longleftrightarrow>
      (\<exists>cause. convert_body e child i d w = (w', Some (Inl cause)) \<and>
         err = new_Error (''Failed to convert InDesign to PDF: '' @ message cause))"
    by (cases "convert_body e child i d w")
      (auto simp: convertInDesignToPDF_def split: option.splits sum.splits)
  show "extractZipAndFindInDesignFile e unzip z x = Inl err' \<longleftrightarrow>
      (\<exists>cause. extract_body e unzip z x = Inl cause \<and>
         err' = (if str_includes (message cause) ''No InDesign file'' then cause
                 else new_Error (''Failed to extract zip file: '' @ message cause)))"
    by (cases "extract_body e unzip z x")
      (auto simp: extractZipAndFindInDesignFile_def)
qed

lemma missing_source_body:
  "convert_body win_env idle_child ''/work/none.indd'' ''/work/out'' start_world =
     (start_world, Some (Inl (new_Error ''InDesign file not found: /work/none.indd'')))"
  by (simp add: convert_body_def fs_defs start_world_def)

lemma broken_body:
  "extract_body mac_env broken_unzip ''/up/a.zip'' ''/work'' =
     Inl (new_Error ''ADM-ZIP: Invalid or unsupported zip format. No END header found'')"
  by (simp add: extract_body_def broken_unzip_def)

theorem failures_are_wrapped_witness:
  "convertInDesignToPDF win_env idle_child ''/work/none.indd'' ''/work/out'' start_world =
     (start_world, Some (Inl (new_Error
        ''Failed to convert InDesign to PDF: InDesign file not found: /work/none.indd''))) \<and>
   extractZipAndFindInDesignFile mac_env broken_unzip ''/up/a.zip'' ''/work'' =
     Inl (new_Error
       ''Failed to extract zip file: ADM-ZIP: Invalid or unsupported zip format. No END header found'')"
proof -
  let ?c1 = "new_Error ''InDesign file not found: /work/none.indd''"
  let ?c2 = "new_Error ''ADM-ZIP: Invalid or unsupported zip format. No END header found''"
  have plain: "\<not> str_includes (message ?c2) ''No InDesign file''"
    by (simp add: new_Error_def startsWith_def)
  have m1: "''Failed to convert InDesign to PDF: '' @ message ?c1 =
      ''Failed to convert InDesign to PDF: InDesign file not found: /work/none.indd''"
    by (simp add: new_Error_def)
  have m2: "''Failed to extract zip file: '' @ message ?c2 =
      ''Failed to extract zip file: ADM-ZIP: Invalid or unsupported zip format. No END header found''"
    by (simp add: new_Error_def)
  note inst1 = failures_are_wrapped
    [where e = win_env and child = idle_child and i = "''/work/none.indd''"
       and d = "''/work/out''" and w = start_world and w' = start_world
       and err = "new_Error (''Failed to convert InDesign to PDF: '' @ message ?c1)"]
  note inst2 = failures_are_wrapped
    [where e = mac_env and unzip = broken_unzip and z = "''/up/a.zip''" and x = "''/work''"
       and err' = "new_Error (''Failed to extract zip file: '' @ message ?c2)"]
  have "convertInDesignToPDF win_env idle_child ''/work/none.indd'' ''/work/out'' start_world =
     (start_world, Some (Inl (new_Error (''Failed to convert InDesign to PDF: '' @ message ?c1))))"
    using inst1 missing_source_body by blast
  moreover have "extractZipAndFindInDesignFile mac_env broken_unzip ''/up/a.zip'' ''/work'' =
     Inl (new_Error (''Failed to extract zip file: '' @ message ?c2))"
    using inst2 broken_body plain by (metis (full_types))
  ultimately show ?thesis
    unfolding m1 m2 by (rule conjI)
qed

lemma readme_run:
  "extractZipAndFindInDesignFile mac_env readme_unzip ''/up/a.zip'' ''/work'' =
     Inl (new_Error ''No InDesign file (.indd or .idml) found in the zip'')"
  by code_simp

text \<open>
  C8 as the specification words it fails: the error of an archive without a document
  leaves the extraction step without the prefix of the step.
\<close>

theorem unwrapped_not_found_counterexample:
  "extractZipAndFindInDesignFile mac_env readme_unzip ''/up/a.zip'' ''/work'' =
     Inl (new_Error ''No InDesign file (.indd or .idml) found in the zip'') \<and>
   \<not> startsWith ''No InDesign file (.indd or .idml) found in the zip''
         ''Failed to extract zip file: ''"
  by (simp add: readme_run startsWith_def)

section \<open>Deleting what is not there\<close>




end
